theory Spec2Isabelle
  imports Main "HOL-Library.Char_ord" "HOL-Library.List_Lexorder"
begin

section \<open>Data model\<close>

text \<open>
  The webhook receives an alert group from Alertmanager (\<open>template.Data\<close>), looks up the
  incidents that carry the group's key, and creates or updates one incident.

  Go strings are byte strings: \<^typ>\<open>string\<close> here is a list of 8-bit characters, and the
  order on strings (\<open>HOL-Library.Char_ord\<close>, \<open>HOL-Library.List_Lexorder\<close>) is the
  byte-wise lexicographic order that Go's \<open>sort.Strings\<close> uses.

  A Go \<open>error\<close> is modelled by its message; \<open>nil\<close> is \<open>None\<close>.
\<close>

type_synonym error = string

text \<open>\<open>template.Pair\<close>: \<open>type Pair struct { Name, Value string }\<close>; \<open>template.Pairs\<close> is \<open>[]Pair\<close>.\<close>

record Pair =
  Name :: string
  Value :: string

type_synonym Pairs = "Pair list"

text \<open>
  \<open>template.KV\<close> is \<open>map[string]string\<close>. A Go map has no order of its own, and
  \<open>for k := range kv\<close> visits the keys in an unspecified order. The model is an association
  list whose order is the order in which \<open>range\<close> visits the entries; in a Go map the keys
  are distinct (\<open>distinct (map fst kv)\<close>).
\<close>

type_synonym KV = "(string \<times> string) list"

text \<open>
  \<open>template.Alert\<close>. \<open>StartsAt\<close> and \<open>EndsAt\<close> are \<open>time.Time\<close> values; the type of
  timestamps is a parameter, and so is the text that \<open>%v\<close> prints for one.
\<close>

record 't Alert =
  Status :: string
  Labels :: KV
  Annotations :: KV
  StartsAt :: 't
  EndsAt :: 't
  GeneratorURL :: string

text \<open>\<open>template.Data\<close>, the decoded request body.\<close>

record 't Data =
  Receiver :: string
  Status :: string
  Alerts :: "'t Alert list"
  GroupLabels :: KV
  CommonLabels :: KV
  CommonAnnotations :: KV
  ExternalURL :: string

text \<open>The configuration structs of \<open>main.go\<close>; a \<open>json.Number\<close> is a string.\<close>

record ServiceNowConfig =
  InstanceName :: string
  UserName :: string
  Password :: string
  IncidentGroupKeyField :: string

record DefaultIncidentConfig =
  AssignmentGroup :: string
  Impact :: string
  Urgency :: string

record Config =
  ServiceNow :: ServiceNowConfig
  DefaultIncident :: DefaultIncidentConfig

text \<open>
  \<open>IncidentParam\<close> and \<open>Incident\<close> are declared in the ServiceNow client of the repository,
  which \<open>main.go\<close> only uses: \<open>IncidentParam\<close> is the struct with the eight fields that
  \<open>dataToIncidentParam\<close> fills, and \<open>Incident\<close> is an interface with the two getters
  \<open>GetNumber\<close> and \<open>GetSysID\<close>.
\<close>

record IncidentParam =
  AssignmentGroup :: string
  CallerID :: string
  Comments :: string
  Description :: string
  Impact :: string
  ShortDescription :: string
  GroupKey :: string
  Urgency :: string

record Incident =
  GetNumber :: string
  GetSysID :: string

section \<open>Library functions used by \<open>main.go\<close>\<close>

text \<open>
  \<open>KV.SortedPairs\<close> of \<open>github.com/prometheus/alertmanager/template\<close>:
  \<^verbatim>\<open>
  func (kv KV) SortedPairs() Pairs {
      var (
          pairs     = make([]Pair, 0, len(kv))
          keys      = make([]string, 0, len(kv))
          sortStart = 0
      )
      for k := range kv {
          if k == string(model.AlertNameLabel) {
              keys = append([]string{k}, keys...)
              sortStart = 1
          } else {
              keys = append(keys, k)
          }
      }
      sort.Strings(keys[sortStart:])
      for _, k := range keys {
          pairs = append(pairs, Pair{k, kv[k]})
      }
      return pairs
  }
  \<close>
  where \<open>model.AlertNameLabel\<close> is \<open>"alertname"\<close>: the label \<open>alertname\<close> is put first, and
  only the keys after it are sorted.
\<close>

definition AlertNameLabel :: string where
  "AlertNameLabel = ''alertname''"

text \<open>The first loop: the state is \<open>(keys, sortStart)\<close>.\<close>

fun rangeKeys :: "string list \<Rightarrow> string list \<times> nat \<Rightarrow> string list \<times> nat" where
  "rangeKeys [] (keys, sortStart) = (keys, sortStart)"
| "rangeKeys (k # ks) (keys, sortStart) =
     (if k = AlertNameLabel then rangeKeys ks ([k] @ keys, 1)
      else rangeKeys ks (keys @ [k], sortStart))"

text \<open>\<open>kv[k]\<close>: the value stored under \<open>k\<close>, the empty string when there is none.\<close>

definition index :: "KV \<Rightarrow> string \<Rightarrow> string" where
  "index kv k = (case map_of kv k of Some v \<Rightarrow> v | None \<Rightarrow> '''')"

definition SortedPairs :: "KV \<Rightarrow> Pairs" where
  "SortedPairs kv =
     (case rangeKeys (map fst kv) ([], 0) of
        (keys, sortStart) \<Rightarrow>
          map (\<lambda>k. \<lparr>Name = k, Value = index kv k\<rparr>)
            (take sortStart keys @ sort (drop sortStart keys)))"

text \<open>
  \<open>fmt.Sprintf("%v", ps)\<close> for \<open>ps\<close> of type \<open>Pairs\<close>, a slice of structs of two
  strings with no \<open>String\<close> method (the library of the time of this program; later
  releases of the library give \<open>Pairs\<close> a \<open>String\<close> method that prints
  \<open>name=value\<close> joined by a comma and a space): \<open>fmt\<close> prints a struct as
  \<open>{field0 field1}\<close> and a slice as \<open>[elem0 elem1 ...]\<close>, the strings as they are.
\<close>

definition fmtPair :: "Pair \<Rightarrow> string" where
  "fmtPair p = ''{'' @ Name p @ '' '' @ Value p @ ''}''"

fun fmtElems :: "string list \<Rightarrow> string" where
  "fmtElems [] = ''''"
| "fmtElems [e] = e"
| "fmtElems (e # e' # es) = e @ '' '' @ fmtElems (e' # es)"

definition fmtPairs :: "Pairs \<Rightarrow> string" where
  "fmtPairs ps = ''['' @ fmtElems (map fmtPair ps) @ '']''"

section \<open>The functions of \<open>main.go\<close>\<close>

text \<open>\<open>getGroupKey\<close>: \<open>fmt.Sprintf("%v", data.GroupLabels.SortedPairs())\<close>.\<close>

definition getGroupKey :: "'t Data \<Rightarrow> string" where
  "getGroupKey data = fmtPairs (SortedPairs (GroupLabels data))"

text \<open>
  The loop of \<open>dataToIncidentParam\<close> over the group labels; the argument \<open>b\<close> is the
  content of \<open>groupKeyBuilder\<close>.
\<close>

fun groupKeyLoop :: "Pairs \<Rightarrow> string \<Rightarrow> string" where
  "groupKeyLoop [] b = b"
| "groupKeyLoop (label # labels) b =
     groupKeyLoop labels
       ((if length b > 0 then b @ '', '' else b) @ Name label @ '': '' @ Value label)"

text \<open>The two inner loops over an alert's labels and annotations write one line per pair.\<close>

definition writePairLine :: "string \<Rightarrow> Pair \<Rightarrow> string" where
  "writePairLine b p = b @ ''\<newline>- '' @ Name p @ '': '' @ Value p"

text \<open>The body of the loop over \<open>data.Alerts\<close> builds \<open>alertBuilder\<close>.\<close>

definition alertBuilder :: "('t \<Rightarrow> string) \<Rightarrow> 't Alert \<Rightarrow> string" where
  "alertBuilder showTime alert =
     (let b0 = ''['' @ Alert.Status alert @ ''] '' @ showTime (StartsAt alert);
          b1 = foldl writePairLine b0 (SortedPairs (Labels alert));
          b2 = foldl writePairLine b1 (SortedPairs (Annotations alert))
      in b2)"

definition commentBuilder :: "('t \<Rightarrow> string) \<Rightarrow> 't Alert list \<Rightarrow> string" where
  "commentBuilder showTime alerts =
     foldl (\<lambda>b alert. b @ ''\<newline>\<newline>'' @ alertBuilder showTime alert) ''Alerts list:'' alerts"

text \<open>
  \<open>dataToIncidentParam\<close>; the global \<open>config\<close> is the argument \<open>config\<close>, and
  \<open>showTime\<close> is what \<open>%v\<close> prints for a \<open>time.Time\<close>.
\<close>

definition dataToIncidentParam :: "Config \<Rightarrow> ('t \<Rightarrow> string) \<Rightarrow> 't Data \<Rightarrow> IncidentParam" where
  "dataToIncidentParam config showTime data =
     (let groupKeyBuilder = groupKeyLoop (SortedPairs (GroupLabels data)) '''';
          shortDescriptionBuilder = (''['' @ Data.Status data @ ''] '') @ groupKeyBuilder;
          descriptionBuilder =
            (''Group key: '' @ groupKeyBuilder)
            @ (''\<newline>AlertManager receiver: '' @ Receiver data)
            @ (''\<newline>AlertManager source URL: '' @ ExternalURL data)
      in \<lparr>IncidentParam.AssignmentGroup = DefaultIncidentConfig.AssignmentGroup (DefaultIncident config),
          CallerID = UserName (ServiceNow config),
          Comments = commentBuilder showTime (Alerts data),
          Description = descriptionBuilder,
          IncidentParam.Impact = DefaultIncidentConfig.Impact (DefaultIncident config),
          ShortDescription = shortDescriptionBuilder,
          GroupKey = getGroupKey data,
          IncidentParam.Urgency = DefaultIncidentConfig.Urgency (DefaultIncident config)\<rparr>)"

text \<open>
  The ServiceNow client (the global \<open>serviceNow\<close>) is an interface of three calls, each
  returning a value and an \<open>error\<close>, as Go functions do: both are present in the result.
  The client talks to a remote system, whose state is \<open>'s\<close>; each call maps a state to a
  result and a new state.
\<close>

record 's ServiceNowClient =
  GetIncidents :: "(string \<times> string) list \<Rightarrow> 's \<Rightarrow> (Incident list \<times> error option) \<times> 's"
  CreateIncident :: "IncidentParam \<Rightarrow> 's \<Rightarrow> (Incident \<times> error option) \<times> 's"
  UpdateIncident :: "IncidentParam \<Rightarrow> string \<Rightarrow> 's \<Rightarrow> (Incident \<times> error option) \<times> 's"

text \<open>The calls that a run issues to the client, in order.\<close>

datatype Call =
  GetIncidentsCall "(string \<times> string) list"
| CreateIncidentCall IncidentParam
| UpdateIncidentCall IncidentParam string

text \<open>
  \<open>manageIncidents\<close> returns its \<open>error\<close>, the calls it issued and the final state of the
  remote system. \<open>existingIncident := incidents[0]\<close> is \<open>hd\<close> in a branch where the slice
  is not empty. The \<open>err\<close> of \<open>GetIncidents\<close> is assigned and never read.
\<close>

definition manageIncidents ::
  "Config \<Rightarrow> 's ServiceNowClient \<Rightarrow> ('t \<Rightarrow> string) \<Rightarrow> 't Data \<Rightarrow> 's \<Rightarrow> error option \<times> Call list \<times> 's" where
  "manageIncidents config serviceNow showTime data s0 =
     (let groupKey = getGroupKey data;
          getParams = [(IncidentGroupKeyField (ServiceNow config), groupKey)]
      in case GetIncidents serviceNow getParams s0 of
        ((incidents, err), s1) \<Rightarrow>
          if length incidents = 0 then
            (let incident = dataToIncidentParam config showTime data
             in case CreateIncident serviceNow incident s1 of
               ((created, err'), s2) \<Rightarrow>
                 (case err' of
                    Some e \<Rightarrow> (Some e, [GetIncidentsCall getParams, CreateIncidentCall incident], s2)
                  | None \<Rightarrow> (None, [GetIncidentsCall getParams, CreateIncidentCall incident], s2)))
          else
            (let existingIncident = hd incidents;
                 incident = dataToIncidentParam config showTime data
             in case UpdateIncident serviceNow incident (GetSysID existingIncident) s1 of
               ((updated, err'), s2) \<Rightarrow>
                 (case err' of
                    Some e \<Rightarrow> (Some e, [GetIncidentsCall getParams, UpdateIncidentCall incident (GetSysID existingIncident)], s2)
                  | None \<Rightarrow> (None, [GetIncidentsCall getParams, UpdateIncidentCall incident (GetSysID existingIncident)], s2))))"

text \<open>The write calls of a run, and the parts of a result.\<close>

fun isCreate :: "Call \<Rightarrow> bool" where
  "isCreate (CreateIncidentCall p) = True"
| "isCreate c = False"

fun isUpdate :: "Call \<Rightarrow> bool" where
  "isUpdate (UpdateIncidentCall p i) = True"
| "isUpdate c = False"

definition returned :: "error option \<times> Call list \<times> 's \<Rightarrow> error option" where
  "returned r = fst r"

definition calls :: "error option \<times> Call list \<times> 's \<Rightarrow> Call list" where
  "calls r = fst (snd r)"

definition finalState :: "error option \<times> Call list \<times> 's \<Rightarrow> 's" where
  "finalState r = snd (snd r)"

section \<open>The renderings that the specification names\<close>

text \<open>The elements of a list joined by a separator.\<close>

fun joinWith :: "string \<Rightarrow> string list \<Rightarrow> string" where
  "joinWith sep [] = ''''"
| "joinWith sep [x] = x"
| "joinWith sep (x # y # ys) = x @ sep @ joinWith sep (y # ys)"

text \<open>A label as text: \<open>name: value\<close>, and as a line of an alert's block.\<close>

definition pairText :: "string \<times> string \<Rightarrow> string" where
  "pairText e = fst e @ '': '' @ snd e"

definition pairLine :: "string \<times> string \<Rightarrow> string" where
  "pairLine e = ''\<newline>- '' @ fst e @ '': '' @ snd e"

text \<open>Go's rendering of one pair under \<open>%v\<close>.\<close>

definition pairStruct :: "string \<times> string \<Rightarrow> string" where
  "pairStruct e = ''{'' @ fst e @ '' '' @ snd e @ ''}''"

text \<open>The specification's order: the label pairs sorted by name, ascending.\<close>

definition sortedByName :: "KV \<Rightarrow> KV" where
  "sortedByName kv = sort_key fst kv"

text \<open>
  The specification's rendering of a label set: the pairs sorted by name, each as
  \<open>name: value\<close>, joined by a comma and a space.
\<close>

definition specLabelRendering :: "KV \<Rightarrow> string" where
  "specLabelRendering kv = joinWith '', '' (map pairText (sortedByName kv))"

text \<open>
  The order of the code: the label \<open>alertname\<close> first when there is one, then the other
  pairs sorted by name, ascending.
\<close>

definition alertnameFirst :: "KV \<Rightarrow> KV" where
  "alertnameFirst kv =
     filter (\<lambda>e. fst e = AlertNameLabel) kv
     @ sort_key fst (filter (\<lambda>e. fst e \<noteq> AlertNameLabel) kv)"

definition toPair :: "string \<times> string \<Rightarrow> Pair" where
  "toPair e = \<lparr>Name = fst e, Value = snd e\<rparr>"

text \<open>
  The block of one alert in the comments: its status and start time, one line for each
  label and one line for each annotation, in the order \<open>ord\<close> of the pairs.
\<close>

definition alertBlock :: "(KV \<Rightarrow> KV) \<Rightarrow> ('t \<Rightarrow> string) \<Rightarrow> 't Alert \<Rightarrow> string" where
  "alertBlock ord showTime alert =
     ''['' @ Alert.Status alert @ ''] '' @ showTime (StartsAt alert)
     @ concat (map pairLine (ord (Labels alert)))
     @ concat (map pairLine (ord (Annotations alert)))"

section \<open>Example inputs\<close>

definition exampleConfig :: Config where
  "exampleConfig =
     \<lparr>ServiceNow = \<lparr>InstanceName = ''dev12345'', UserName = ''webhook'', Password = ''secret'',
                     IncidentGroupKeyField = ''u_other_reference_1''\<rparr>,
      DefaultIncident = \<lparr>DefaultIncidentConfig.AssignmentGroup = ''operations'',
                          DefaultIncidentConfig.Impact = ''2'',
                          DefaultIncidentConfig.Urgency = ''3''\<rparr>\<rparr>"

text \<open>
  A client that answers every lookup with \<open>found\<close> and \<open>lookupErr\<close> and every write with
  \<open>writeErr\<close>; the remote state counts the calls received.
\<close>

definition stubClient :: "Incident list \<Rightarrow> error option \<Rightarrow> error option \<Rightarrow> nat ServiceNowClient" where
  "stubClient found lookupErr writeErr =
     \<lparr>GetIncidents = (\<lambda>params s. ((found, lookupErr), Suc s)),
      CreateIncident = (\<lambda>p s. ((\<lparr>GetNumber = ''INC0010001'', GetSysID = ''new1''\<rparr>, writeErr), Suc s)),
      UpdateIncident = (\<lambda>p sysID s. ((\<lparr>GetNumber = ''INC0010002'', GetSysID = sysID\<rparr>, writeErr), Suc s))\<rparr>"

text \<open>
  A client with the same answers whose remote state is the list of the calls it has
  received, in order.
\<close>

definition recordingClient ::
  "Incident list \<Rightarrow> error option \<Rightarrow> error option \<Rightarrow> Call list ServiceNowClient" where
  "recordingClient found lookupErr writeErr =
     \<lparr>GetIncidents = (\<lambda>params s. ((found, lookupErr), s @ [GetIncidentsCall params])),
      CreateIncident = (\<lambda>p s. ((\<lparr>GetNumber = ''INC0010001'', GetSysID = ''new1''\<rparr>, writeErr),
        s @ [CreateIncidentCall p])),
      UpdateIncident = (\<lambda>p sysID s. ((\<lparr>GetNumber = ''INC0010002'', GetSysID = sysID\<rparr>, writeErr),
        s @ [UpdateIncidentCall p sysID]))\<rparr>"

definition T1 :: Incident where
  "T1 = \<lparr>GetNumber = ''INC0000001'', GetSysID = ''abc123''\<rparr>"

definition T2 :: Incident where
  "T2 = \<lparr>GetNumber = ''INC0000002'', GetSysID = ''def456''\<rparr>"

definition alertA :: "string Alert" where
  "alertA =
     \<lparr>Alert.Status = ''firing'',
      Labels = [(''job'', ''node''), (''alert_type'', ''cpu''), (''alertname'', ''HighCPU'')],
      Annotations = [(''summary'', ''load is high'')],
      StartsAt = ''2020-01-02 03:04:05 +0000 UTC'', EndsAt = ''0001-01-01 00:00:00 +0000 UTC'',
      GeneratorURL = ''http://prometheus/graph''\<rparr>"

definition alertB :: "string Alert" where
  "alertB =
     \<lparr>Alert.Status = ''resolved'',
      Labels = [(''instance'', ''a1''), (''alertname'', ''Abc'')],
      Annotations = [],
      StartsAt = ''2020-01-02 03:00:00 +0000 UTC'', EndsAt = ''2020-01-02 03:04:00 +0000 UTC'',
      GeneratorURL = ''http://prometheus/graph''\<rparr>"

text \<open>The group of the specification's examples, its labels visited in two different orders.\<close>

definition highCPU :: "string Data" where
  "highCPU =
     \<lparr>Receiver = ''servicenow'', Data.Status = ''firing'', Alerts = [alertA, alertB],
      GroupLabels = [(''job'', ''node''), (''alertname'', ''HighCPU'')],
      CommonLabels = [(''alertname'', ''HighCPU'')], CommonAnnotations = [],
      ExternalURL = ''http://alertmanager:9093''\<rparr>"

definition highCPU' :: "string Data" where
  "highCPU' = highCPU\<lparr>GroupLabels := [(''alertname'', ''HighCPU''), (''job'', ''node'')]\<rparr>"

text \<open>A group with a label whose name is smaller than \<open>alertname\<close>.\<close>

definition alertTypeGroup :: "string Data" where
  "alertTypeGroup =
     highCPU\<lparr>GroupLabels := [(''alert_type'', ''cpu''), (''alertname'', ''HighCPU'')]\<rparr>"

text \<open>A group with no group label and no alert.\<close>

definition noLabels :: "string Data" where
  "noLabels = highCPU\<lparr>GroupLabels := [], Alerts := []\<rparr>"

section \<open>The order of \<open>SortedPairs\<close>\<close>

lemma rangeKeys_eq:
  "rangeKeys ks (keys, sortStart) =
     (rev (filter (\<lambda>k. k = AlertNameLabel) ks) @ keys @ filter (\<lambda>k. k \<noteq> AlertNameLabel) ks,
      if AlertNameLabel \<in> set ks then 1 else sortStart)"
  by (induction ks arbitrary: keys sortStart) auto

lemma filter_eq_distinct:
  "distinct ks \<Longrightarrow> filter (\<lambda>k. k = a) ks = (if a \<in> set ks then [a] else [])"
  by (induction ks) auto

text \<open>The keys after the two steps: \<open>alertname\<close> if it is a key, then the other keys sorted.\<close>

lemma SortedPairs_keys:
  assumes "distinct (map fst kv)"
  shows "SortedPairs kv =
     map (\<lambda>k. \<lparr>Name = k, Value = index kv k\<rparr>)
       ((if AlertNameLabel \<in> fst ` set kv then [AlertNameLabel] else [])
        @ sort (filter (\<lambda>k. k \<noteq> AlertNameLabel) (map fst kv)))"
proof -
  have f: "filter (\<lambda>k. k = AlertNameLabel) (map fst kv) =
      (if AlertNameLabel \<in> set (map fst kv) then [AlertNameLabel] else [])"
    using assms by (rule filter_eq_distinct)
  show ?thesis
  proof (cases "AlertNameLabel \<in> fst ` set kv")
    case True
    then show ?thesis
      unfolding SortedPairs_def rangeKeys_eq using f by simp
  next
    case False
    then show ?thesis
      unfolding SortedPairs_def rangeKeys_eq using f by simp
  qed
qed

lemma index_of_member:
  "distinct (map fst kv) \<Longrightarrow> e \<in> set kv \<Longrightarrow> index kv (fst e) = snd e"
  by (cases e) (simp add: index_def)

lemma map_toPair_index:
  assumes "distinct (map fst kv)" "set es \<subseteq> set kv"
  shows "map (\<lambda>k. \<lparr>Name = k, Value = index kv k\<rparr>) (map fst es) = map toPair es"
proof -
  have "\<lparr>Name = fst e, Value = index kv (fst e)\<rparr> = toPair e" if "e \<in> set es" for e
    using that assms index_of_member [of kv e] by (auto simp: toPair_def)
  then show ?thesis by simp
qed

lemma map_insort_key: "map f (insort_key f x xs) = insort (f x) (map f xs)"
  by (induction xs) simp_all

lemma map_sort_key: "map f (sort_key f xs) = sort (map f xs)"
  by (induction xs) (simp_all add: map_insort_key)

lemma SortedPairs_alertnameFirst:
  assumes "distinct (map fst kv)"
  shows "SortedPairs kv = map toPair (alertnameFirst kv)"
proof -
  have one: "map fst (filter (\<lambda>e. fst e = AlertNameLabel) kv) =
      (if AlertNameLabel \<in> fst ` set kv then [AlertNameLabel] else [])"
    using filter_eq_distinct [OF assms, of AlertNameLabel] by (simp add: filter_map o_def)
  have rest: "map fst (sort_key fst (filter (\<lambda>e. fst e \<noteq> AlertNameLabel) kv)) =
      sort (filter (\<lambda>k. k \<noteq> AlertNameLabel) (map fst kv))"
    by (simp add: map_sort_key filter_map o_def)
  have "map toPair (alertnameFirst kv) =
      map (\<lambda>k. \<lparr>Name = k, Value = index kv k\<rparr>) (map fst (alertnameFirst kv))"
    by (rule map_toPair_index [OF assms, symmetric]) (auto simp: alertnameFirst_def)
  also have "map fst (alertnameFirst kv) =
      (if AlertNameLabel \<in> fst ` set kv then [AlertNameLabel] else [])
        @ sort (filter (\<lambda>k. k \<noteq> AlertNameLabel) (map fst kv))"
    unfolding alertnameFirst_def map_append one rest ..
  finally show ?thesis using SortedPairs_keys [OF assms] by simp
qed

text \<open>Two visiting orders of the same map give the same pairs.\<close>

lemma SortedPairs_perm:
  assumes "distinct (map fst xs)" "distinct (map fst ys)" "set xs = set ys"
  shows "SortedPairs xs = SortedPairs ys"
proof -
  have "map_of xs = map_of ys"
    using assms by (simp add: map_of_inject_set)
  then have i: "index xs = index ys" by (simp add: index_def fun_eq_iff)
  let ?fx = "filter (\<lambda>k. k \<noteq> AlertNameLabel) (map fst xs)"
  let ?fy = "filter (\<lambda>k. k \<noteq> AlertNameLabel) (map fst ys)"
  have "set ?fx = set ?fy" using assms(3) by simp
  moreover have "distinct ?fx" "distinct ?fy" using assms(1,2) by simp_all
  ultimately have "sort ?fx = sort ?fy"
    by (intro sorted_distinct_set_unique) simp_all
  then show ?thesis
    using assms(3) by (simp add: SortedPairs_keys [OF assms(1)] SortedPairs_keys [OF assms(2)] i)
qed

section \<open>The loops as joins\<close>

lemma joinWith_Cons: "joinWith sep (x # xs) = x @ concat (map (\<lambda>y. sep @ y) xs)"
  by (induction xs arbitrary: x) simp_all

lemma fmtElems_joinWith: "fmtElems es = joinWith '' '' es"
  by (induction es rule: fmtElems.induct) simp_all

lemma groupKeyLoop_nonempty:
  "b \<noteq> [] \<Longrightarrow>
   groupKeyLoop ps b = b @ concat (map (\<lambda>p. '', '' @ Name p @ '': '' @ Value p) ps)"
  by (induction ps arbitrary: b) simp_all

lemma groupKeyLoop_joinWith:
  "groupKeyLoop ps [] = joinWith '', '' (map (\<lambda>p. Name p @ '': '' @ Value p) ps)"
proof (cases ps)
  case Nil
  then show ?thesis by simp
next
  case (Cons p qs)
  have "groupKeyLoop (p # qs) [] = groupKeyLoop qs (Name p @ '': '' @ Value p)"
    by simp
  also have "\<dots> = (Name p @ '': '' @ Value p)
      @ concat (map (\<lambda>p. '', '' @ Name p @ '': '' @ Value p) qs)"
    by (rule groupKeyLoop_nonempty) simp
  finally show ?thesis
    using Cons by (simp add: joinWith_Cons o_def)
qed

lemma foldl_writePairLine:
  "foldl writePairLine b ps = b @ concat (map (\<lambda>p. ''\<newline>- '' @ Name p @ '': '' @ Value p) ps)"
  by (induction ps arbitrary: b) (simp_all add: writePairLine_def)

lemma foldl_blocks:
  "foldl (\<lambda>b a. b @ sep @ f a) h as = h @ concat (map (\<lambda>a. sep @ f a) as)"
  by (induction as arbitrary: h) simp_all

lemma alertBuilder_alertBlock:
  assumes "distinct (map fst (Labels alert))" "distinct (map fst (Annotations alert))"
  shows "alertBuilder showTime alert = alertBlock alertnameFirst showTime alert"
  by (simp add: alertBuilder_def alertBlock_def Let_def foldl_writePairLine
      SortedPairs_alertnameFirst [OF assms(1)] SortedPairs_alertnameFirst [OF assms(2)]
      o_def toPair_def pairLine_def [abs_def])

lemma shortDescription_eq:
  assumes "distinct (map fst (GroupLabels data))"
  shows "ShortDescription (dataToIncidentParam config showTime data) =
     ''['' @ Data.Status data @ ''] ''
     @ joinWith '', '' (map pairText (alertnameFirst (GroupLabels data)))"
  by (simp add: dataToIncidentParam_def Let_def groupKeyLoop_joinWith
      SortedPairs_alertnameFirst [OF assms] o_def toPair_def pairText_def [abs_def])

text \<open>
  A whole run, in each branch: the error returned and the final state of the remote system
  are those of the one write call, applied to the state that the lookup left.
\<close>

lemma run_create:
  assumes "fst (fst (GetIncidents serviceNow
      [(IncidentGroupKeyField (ServiceNow config), getGroupKey data)] s0)) = []"
  shows "manageIncidents config serviceNow showTime data s0 =
     (snd (fst (CreateIncident serviceNow (dataToIncidentParam config showTime data)
        (snd (GetIncidents serviceNow
          [(IncidentGroupKeyField (ServiceNow config), getGroupKey data)] s0)))),
      [GetIncidentsCall [(IncidentGroupKeyField (ServiceNow config), getGroupKey data)],
       CreateIncidentCall (dataToIncidentParam config showTime data)],
      snd (CreateIncident serviceNow (dataToIncidentParam config showTime data)
        (snd (GetIncidents serviceNow
          [(IncidentGroupKeyField (ServiceNow config), getGroupKey data)] s0))))"
proof -
  obtain incidents err s1 where g: "GetIncidents serviceNow
      [(IncidentGroupKeyField (ServiceNow config), getGroupKey data)] s0 = ((incidents, err), s1)"
    by (metis surj_pair)
  with assms have i: "incidents = []" by simp
  obtain created cerr s2 where c: "CreateIncident serviceNow
      (dataToIncidentParam config showTime data) s1 = ((created, cerr), s2)"
    by (metis surj_pair)
  show ?thesis
    by (cases cerr) (simp_all add: manageIncidents_def Let_def g i c)
qed

lemma run_update:
  assumes "fst (fst (GetIncidents serviceNow
      [(IncidentGroupKeyField (ServiceNow config), getGroupKey data)] s0)) = first # others"
  shows "manageIncidents config serviceNow showTime data s0 =
     (snd (fst (UpdateIncident serviceNow (dataToIncidentParam config showTime data)
        (GetSysID first)
        (snd (GetIncidents serviceNow
          [(IncidentGroupKeyField (ServiceNow config), getGroupKey data)] s0)))),
      [GetIncidentsCall [(IncidentGroupKeyField (ServiceNow config), getGroupKey data)],
       UpdateIncidentCall (dataToIncidentParam config showTime data) (GetSysID first)],
      snd (UpdateIncident serviceNow (dataToIncidentParam config showTime data)
        (GetSysID first)
        (snd (GetIncidents serviceNow
          [(IncidentGroupKeyField (ServiceNow config), getGroupKey data)] s0))))"
proof -
  obtain incidents err s1 where g: "GetIncidents serviceNow
      [(IncidentGroupKeyField (ServiceNow config), getGroupKey data)] s0 = ((incidents, err), s1)"
    by (metis surj_pair)
  with assms have i: "incidents = first # others" by simp
  obtain updated uerr s2 where u: "UpdateIncident serviceNow
      (dataToIncidentParam config showTime data) (GetSysID first) s1 = ((updated, uerr), s2)"
    by (metis surj_pair)
  show ?thesis
    by (cases uerr) (simp_all add: manageIncidents_def Let_def g i u)
qed

text \<open>
  With the recording client, the remote system has received exactly the calls of the run,
  in their order.
\<close>

lemma recordingClient_receives_calls:
  "finalState (manageIncidents config (recordingClient found lookupErr writeErr) showTime data s0) =
     s0 @ calls (manageIncidents config (recordingClient found lookupErr writeErr) showTime data s0)"
  by (cases found; cases writeErr)
    (simp_all add: manageIncidents_def recordingClient_def finalState_def calls_def Let_def)

section \<open>Reconciliation\<close>

text \<open>
  C1. The claim: when the lookup \<open>GetIncidents\<close> returns an error, \<open>manageIncidents\<close> issues
  no create call and no update call and returns a failure. The code assigns the error of the
  lookup to \<open>err\<close> and never reads it. Here the lookup fails with no incident and the create
  call succeeds: \<open>manageIncidents\<close> issues the create call and returns \<open>nil\<close>.
\<close>

theorem lookup_error_ignored:
  "returned (manageIncidents exampleConfig (stubClient [] (Some ''connection refused'') None)
      id highCPU 0) = None
   \<and> calls (manageIncidents exampleConfig (stubClient [] (Some ''connection refused'') None)
      id highCPU 0) =
     [GetIncidentsCall [(''u_other_reference_1'', ''[{alertname HighCPU} {job node}]'')],
      CreateIncidentCall (dataToIncidentParam exampleConfig id highCPU)]"
proof -
  have k: "getGroupKey highCPU = ''[{alertname HighCPU} {job node}]''"
    by (simp add: getGroupKey_def highCPU_def SortedPairs_def AlertNameLabel_def index_def
        fmtPairs_def fmtPair_def)
  show ?thesis
    by (simp add: manageIncidents_def returned_def calls_def stubClient_def Let_def k
        exampleConfig_def)
qed

text \<open>
  C4. When the lookup returns one or more incidents, \<open>manageIncidents\<close> issues exactly one
  update call, addressed to the \<open>sysID\<close> of the first incident returned, and no create call:
  the error it returns and the state in which it leaves the remote system are those of that
  one \<open>UpdateIncident\<close> call, applied to the state that the lookup left.
\<close>

theorem update_path_first_incident:
  assumes "fst (fst (GetIncidents serviceNow
      [(IncidentGroupKeyField (ServiceNow config), getGroupKey data)] s0)) = first # others"
  shows "filter isUpdate (calls (manageIncidents config serviceNow showTime data s0)) =
           [UpdateIncidentCall (dataToIncidentParam config showTime data) (GetSysID first)]
     \<and> filter isCreate (calls (manageIncidents config serviceNow showTime data s0)) = []
     \<and> returned (manageIncidents config serviceNow showTime data s0) =
         snd (fst (UpdateIncident serviceNow (dataToIncidentParam config showTime data)
           (GetSysID first)
           (snd (GetIncidents serviceNow
             [(IncidentGroupKeyField (ServiceNow config), getGroupKey data)] s0))))
     \<and> finalState (manageIncidents config serviceNow showTime data s0) =
         snd (UpdateIncident serviceNow (dataToIncidentParam config showTime data)
           (GetSysID first)
           (snd (GetIncidents serviceNow
             [(IncidentGroupKeyField (ServiceNow config), getGroupKey data)] s0)))"
  by (simp add: run_update [OF assms] calls_def returned_def finalState_def)

theorem update_path_first_incident_witness:
  "fst (fst (GetIncidents (recordingClient [T1, T2] None None)
      [(IncidentGroupKeyField (ServiceNow exampleConfig), getGroupKey highCPU)] [])) = T1 # [T2]
   \<and> filter isUpdate (calls (manageIncidents exampleConfig (recordingClient [T1, T2] None None)
        id highCPU [])) =
       [UpdateIncidentCall (dataToIncidentParam exampleConfig id highCPU) ''abc123'']
   \<and> filter isCreate (calls (manageIncidents exampleConfig (recordingClient [T1, T2] None None)
        id highCPU [])) = []
   \<and> returned (manageIncidents exampleConfig (recordingClient [T1, T2] None None)
        id highCPU []) = None
   \<and> finalState (manageIncidents exampleConfig (recordingClient [T1, T2] None None)
        id highCPU []) =
       [GetIncidentsCall [(IncidentGroupKeyField (ServiceNow exampleConfig), getGroupKey highCPU)],
        UpdateIncidentCall (dataToIncidentParam exampleConfig id highCPU) ''abc123'']"
proof -
  have h: "fst (fst (GetIncidents (recordingClient [T1, T2] None None)
      [(IncidentGroupKeyField (ServiceNow exampleConfig), getGroupKey highCPU)] [])) = T1 # [T2]"
    by (simp add: recordingClient_def)
  show ?thesis
    using h update_path_first_incident [OF h, of id]
    by (simp add: T1_def recordingClient_def)
qed

text \<open>
  C10. One run of \<open>manageIncidents\<close> issues exactly one write call to the client, a create
  call or an update call, whatever the lookup returns: when the lookup returns no incident,
  the error returned and the final state of the remote system are those of one
  \<open>CreateIncident\<close> call applied to the state that the lookup left, and otherwise they are
  those of one \<open>UpdateIncident\<close> call for the first incident.
\<close>

theorem one_write_per_run:
  "length (filter isCreate (calls (manageIncidents config serviceNow showTime data s0)))
   + length (filter isUpdate (calls (manageIncidents config serviceNow showTime data s0))) = 1
   \<and> ((fst (fst (GetIncidents serviceNow
           [(IncidentGroupKeyField (ServiceNow config), getGroupKey data)] s0)) = []
        \<and> returned (manageIncidents config serviceNow showTime data s0) =
            snd (fst (CreateIncident serviceNow (dataToIncidentParam config showTime data)
              (snd (GetIncidents serviceNow
                [(IncidentGroupKeyField (ServiceNow config), getGroupKey data)] s0))))
        \<and> finalState (manageIncidents config serviceNow showTime data s0) =
            snd (CreateIncident serviceNow (dataToIncidentParam config showTime data)
              (snd (GetIncidents serviceNow
                [(IncidentGroupKeyField (ServiceNow config), getGroupKey data)] s0))))
      \<or> (fst (fst (GetIncidents serviceNow
           [(IncidentGroupKeyField (ServiceNow config), getGroupKey data)] s0)) \<noteq> []
        \<and> returned (manageIncidents config serviceNow showTime data s0) =
            snd (fst (UpdateIncident serviceNow (dataToIncidentParam config showTime data)
              (GetSysID (hd (fst (fst (GetIncidents serviceNow
                [(IncidentGroupKeyField (ServiceNow config), getGroupKey data)] s0)))))
              (snd (GetIncidents serviceNow
                [(IncidentGroupKeyField (ServiceNow config), getGroupKey data)] s0))))
        \<and> finalState (manageIncidents config serviceNow showTime data s0) =
            snd (UpdateIncident serviceNow (dataToIncidentParam config showTime data)
              (GetSysID (hd (fst (fst (GetIncidents serviceNow
                [(IncidentGroupKeyField (ServiceNow config), getGroupKey data)] s0)))))
              (snd (GetIncidents serviceNow
                [(IncidentGroupKeyField (ServiceNow config), getGroupKey data)] s0)))))"
proof (cases "fst (fst (GetIncidents serviceNow
      [(IncidentGroupKeyField (ServiceNow config), getGroupKey data)] s0))")
  case Nil
  show ?thesis
    by (simp add: run_create [OF Nil] Nil calls_def returned_def finalState_def)
next
  case (Cons first others)
  show ?thesis
    by (simp add: run_update [OF Cons] Cons calls_def returned_def finalState_def)
qed

text \<open>
  The two branches at the recording client: the remote system receives the lookup and one
  write, and nothing else.
\<close>

theorem one_write_per_run_witness:
  "finalState (manageIncidents exampleConfig (recordingClient [] None None) id highCPU []) =
     [GetIncidentsCall [(IncidentGroupKeyField (ServiceNow exampleConfig), getGroupKey highCPU)],
      CreateIncidentCall (dataToIncidentParam exampleConfig id highCPU)]
   \<and> returned (manageIncidents exampleConfig (recordingClient [] None None) id highCPU []) = None
   \<and> finalState (manageIncidents exampleConfig (recordingClient [T1, T2] None (Some ''HTTP 500''))
        id highCPU []) =
     [GetIncidentsCall [(IncidentGroupKeyField (ServiceNow exampleConfig), getGroupKey highCPU)],
      UpdateIncidentCall (dataToIncidentParam exampleConfig id highCPU) ''abc123'']
   \<and> returned (manageIncidents exampleConfig (recordingClient [T1, T2] None (Some ''HTTP 500''))
        id highCPU []) = Some ''HTTP 500''"
  using one_write_per_run [of exampleConfig "recordingClient [] None None" id highCPU "[]"]
    one_write_per_run [of exampleConfig "recordingClient [T1, T2] None (Some ''HTTP 500'')"
      id highCPU "[]"]
  by (simp add: recordingClient_def T1_def)

section \<open>The fields of the incident\<close>

text \<open>
  C8. When the notification has no alert, the comments of the incident are exactly the
  header line \<open>Alerts list:\<close>.
\<close>

theorem empty_alerts_comments:
  assumes "Alerts data = []"
  shows "Comments (dataToIncidentParam config showTime data) = ''Alerts list:''"
  using assms by (simp add: dataToIncidentParam_def commentBuilder_def Let_def)

theorem empty_alerts_comments_witness:
  "Alerts noLabels = []
   \<and> Comments (dataToIncidentParam exampleConfig id noLabels) = ''Alerts list:''"
proof -
  have h: "Alerts noLabels = []" by (simp add: noLabels_def)
  show ?thesis using h empty_alerts_comments [OF h, of exampleConfig id] by simp
qed

text \<open>
  C9. The assignment group, the caller, the impact and the urgency of the incident are the
  values of the configuration: for one configuration they are the same for any two
  notifications.
\<close>

theorem static_fields_from_config:
  "IncidentParam.AssignmentGroup (dataToIncidentParam config showTime data) =
     IncidentParam.AssignmentGroup (dataToIncidentParam config showTime' data')
   \<and> CallerID (dataToIncidentParam config showTime data) =
     CallerID (dataToIncidentParam config showTime' data')
   \<and> IncidentParam.Impact (dataToIncidentParam config showTime data) =
     IncidentParam.Impact (dataToIncidentParam config showTime' data')
   \<and> IncidentParam.Urgency (dataToIncidentParam config showTime data) =
     IncidentParam.Urgency (dataToIncidentParam config showTime' data')
   \<and> IncidentParam.AssignmentGroup (dataToIncidentParam config showTime data) =
     DefaultIncidentConfig.AssignmentGroup (DefaultIncident config)
   \<and> CallerID (dataToIncidentParam config showTime data) = UserName (ServiceNow config)
   \<and> IncidentParam.Impact (dataToIncidentParam config showTime data) =
     DefaultIncidentConfig.Impact (DefaultIncident config)
   \<and> IncidentParam.Urgency (dataToIncidentParam config showTime data) =
     DefaultIncidentConfig.Urgency (DefaultIncident config)"
  by (simp add: dataToIncidentParam_def Let_def)

section \<open>The group key\<close>

text \<open>When no label is named \<open>alertname\<close>, the order of the code is the order by name.\<close>

lemma alertnameFirst_sortedByName:
  assumes "AlertNameLabel \<notin> fst ` set kv"
  shows "alertnameFirst kv = sortedByName kv"
proof -
  have "filter (\<lambda>e. fst e \<noteq> AlertNameLabel) kv = kv"
    using assms by (force simp: filter_id_conv)
  moreover have "filter (\<lambda>e. fst e = AlertNameLabel) kv = []"
    using assms by (force simp: filter_empty_conv)
  ultimately show ?thesis by (simp add: alertnameFirst_def sortedByName_def)
qed

lemma getGroupKey_eq:
  assumes "distinct (map fst (GroupLabels data))"
  shows "getGroupKey data =
     ''['' @ joinWith '' '' (map pairStruct (alertnameFirst (GroupLabels data))) @ '']''"
  by (simp add: getGroupKey_def fmtPairs_def fmtElems_joinWith
      SortedPairs_alertnameFirst [OF assms] o_def toPair_def fmtPair_def pairStruct_def [abs_def])

text \<open>
  C3. The group key does not depend on the order in which the labels of the group are
  visited: two notifications whose group labels are the same name-value pairs, in any two
  orders, have the same group key.
\<close>

theorem getGroupKey_order_invariant:
  assumes "distinct (map fst (GroupLabels data))"
    and "distinct (map fst (GroupLabels data'))"
    and "set (GroupLabels data) = set (GroupLabels data')"
  shows "getGroupKey data = getGroupKey data'"
  by (simp add: getGroupKey_def SortedPairs_perm [OF assms])

theorem getGroupKey_order_invariant_witness:
  "distinct (map fst (GroupLabels highCPU)) \<and> distinct (map fst (GroupLabels highCPU'))
   \<and> set (GroupLabels highCPU) = set (GroupLabels highCPU')
   \<and> GroupLabels highCPU \<noteq> GroupLabels highCPU'
   \<and> getGroupKey highCPU = getGroupKey highCPU'"
proof -
  have h1: "distinct (map fst (GroupLabels highCPU))" by (simp add: highCPU_def)
  have h2: "distinct (map fst (GroupLabels highCPU'))" by (simp add: highCPU'_def highCPU_def)
  have h3: "set (GroupLabels highCPU) = set (GroupLabels highCPU')"
    by (auto simp: highCPU'_def highCPU_def)
  have h4: "GroupLabels highCPU \<noteq> GroupLabels highCPU'"
    by (simp add: highCPU'_def highCPU_def)
  show ?thesis
    using h1 h2 h3 h4 getGroupKey_order_invariant [OF h1 h2 h3] by simp
qed

text \<open>
  C2, as amended. The \<open>GroupKey\<close> field of the incident is the group key of \<open>getGroupKey\<close>:
  the pairs of the group labels, the label \<open>alertname\<close> first and the others sorted by name,
  each printed as \<open>{name value}\<close>, separated by spaces, between square brackets. For the
  group labels \<open>alertname: HighCPU\<close>, \<open>job: node\<close> it is \<open>[{alertname HighCPU} {job node}]\<close>.
\<close>

theorem groupKey_field_rendering:
  assumes "distinct (map fst (GroupLabels data))"
  shows "GroupKey (dataToIncidentParam config showTime data) = getGroupKey data
     \<and> getGroupKey data =
       ''['' @ joinWith '' '' (map pairStruct (alertnameFirst (GroupLabels data))) @ '']''"
  using getGroupKey_eq [OF assms] by (simp add: dataToIncidentParam_def Let_def)

theorem groupKey_field_rendering_witness:
  "distinct (map fst (GroupLabels highCPU))
   \<and> GroupKey (dataToIncidentParam exampleConfig id highCPU) = ''[{alertname HighCPU} {job node}]''"
proof -
  have h: "distinct (map fst (GroupLabels highCPU))" by (simp add: highCPU_def)
  have "alertnameFirst (GroupLabels highCPU) = [(''alertname'', ''HighCPU''), (''job'', ''node'')]"
    by (simp add: highCPU_def alertnameFirst_def AlertNameLabel_def)
  then show ?thesis
    using h groupKey_field_rendering [OF h, of exampleConfig id] by (simp add: pairStruct_def)
qed

text \<open>
  C2, as stated: the \<open>GroupKey\<close> field is the pairs sorted by name, each as \<open>name: value\<close>,
  joined by a comma and a space. For the group labels \<open>alertname: HighCPU\<close>, \<open>job: node\<close>
  that text is \<open>alertname: HighCPU, job: node\<close>, and the field is something else.
\<close>

theorem groupKey_field_counterexample:
  "specLabelRendering (GroupLabels highCPU) = ''alertname: HighCPU, job: node''
   \<and> GroupKey (dataToIncidentParam exampleConfig id highCPU) = ''[{alertname HighCPU} {job node}]''
   \<and> GroupKey (dataToIncidentParam exampleConfig id highCPU) \<noteq> specLabelRendering (GroupLabels highCPU)"
proof -
  have s: "specLabelRendering (GroupLabels highCPU) = ''alertname: HighCPU, job: node''"
    by (simp add: specLabelRendering_def sortedByName_def highCPU_def pairText_def)
  have k: "GroupKey (dataToIncidentParam exampleConfig id highCPU) = ''[{alertname HighCPU} {job node}]''"
    by (simp add: dataToIncidentParam_def Let_def getGroupKey_def highCPU_def SortedPairs_def
        AlertNameLabel_def index_def fmtPairs_def fmtPair_def)
  show ?thesis unfolding s k by simp
qed




section \<open>The create path and the comments\<close>

text \<open>
  C5, as amended. For a notification with status \<open>firing\<close>, when the lookup succeeds and
  returns no incident, \<open>manageIncidents\<close> issues exactly one create call and no update call:
  the error it returns and the state in which it leaves the remote system are those of one
  \<open>CreateIncident\<close> call for the incident built from the notification, applied to the state
  that the lookup left. The short description of that incident is \<open>[firing] \<close> followed by
  the pairs of the group labels as \<open>name: value\<close>, joined by a comma and a space, the label
  \<open>alertname\<close> first and the others sorted by name.
\<close>

theorem create_path:
  assumes "Data.Status data = ''firing''"
    and "fst (GetIncidents serviceNow
      [(IncidentGroupKeyField (ServiceNow config), getGroupKey data)] s0) = ([], None)"
    and "distinct (map fst (GroupLabels data))"
  shows "filter isCreate (calls (manageIncidents config serviceNow showTime data s0)) =
           [CreateIncidentCall (dataToIncidentParam config showTime data)]
     \<and> filter isUpdate (calls (manageIncidents config serviceNow showTime data s0)) = []
     \<and> returned (manageIncidents config serviceNow showTime data s0) =
         snd (fst (CreateIncident serviceNow (dataToIncidentParam config showTime data)
           (snd (GetIncidents serviceNow
             [(IncidentGroupKeyField (ServiceNow config), getGroupKey data)] s0))))
     \<and> finalState (manageIncidents config serviceNow showTime data s0) =
         snd (CreateIncident serviceNow (dataToIncidentParam config showTime data)
           (snd (GetIncidents serviceNow
             [(IncidentGroupKeyField (ServiceNow config), getGroupKey data)] s0)))
     \<and> ShortDescription (dataToIncidentParam config showTime data) =
         ''[firing] '' @ joinWith '', '' (map pairText (alertnameFirst (GroupLabels data)))"
proof -
  have e: "fst (fst (GetIncidents serviceNow
      [(IncidentGroupKeyField (ServiceNow config), getGroupKey data)] s0)) = []"
    using assms(2) by simp
  have sd: "ShortDescription (dataToIncidentParam config showTime data) =
      ''[firing] '' @ joinWith '', '' (map pairText (alertnameFirst (GroupLabels data)))"
    using shortDescription_eq [OF assms(3), of config showTime] assms(1) by simp
  show ?thesis
    using sd by (simp add: run_create [OF e] calls_def returned_def finalState_def)
qed

theorem create_path_witness:
  "Data.Status highCPU = ''firing''
   \<and> fst (GetIncidents (recordingClient [] None None)
      [(IncidentGroupKeyField (ServiceNow exampleConfig), getGroupKey highCPU)] []) = ([], None)
   \<and> distinct (map fst (GroupLabels highCPU))
   \<and> filter isCreate (calls (manageIncidents exampleConfig (recordingClient [] None None)
        id highCPU [])) = [CreateIncidentCall (dataToIncidentParam exampleConfig id highCPU)]
   \<and> filter isUpdate (calls (manageIncidents exampleConfig (recordingClient [] None None)
        id highCPU [])) = []
   \<and> returned (manageIncidents exampleConfig (recordingClient [] None None) id highCPU []) = None
   \<and> finalState (manageIncidents exampleConfig (recordingClient [] None None) id highCPU []) =
       [GetIncidentsCall [(IncidentGroupKeyField (ServiceNow exampleConfig), getGroupKey highCPU)],
        CreateIncidentCall (dataToIncidentParam exampleConfig id highCPU)]
   \<and> ShortDescription (dataToIncidentParam exampleConfig id highCPU) =
         ''[firing] alertname: HighCPU, job: node''"
proof -
  have h1: "Data.Status highCPU = ''firing''" by (simp add: highCPU_def)
  have h2: "fst (GetIncidents (recordingClient [] None None)
      [(IncidentGroupKeyField (ServiceNow exampleConfig), getGroupKey highCPU)] []) = ([], None)"
    by (simp add: recordingClient_def)
  have h3: "distinct (map fst (GroupLabels highCPU))" by (simp add: highCPU_def)
  have "alertnameFirst (GroupLabels highCPU) = [(''alertname'', ''HighCPU''), (''job'', ''node'')]"
    by (simp add: highCPU_def alertnameFirst_def AlertNameLabel_def)
  then show ?thesis
    using h1 h2 h3 create_path [OF h1 h2 h3, of id]
    by (simp add: pairText_def recordingClient_def)
qed

text \<open>
  C5, as stated: the short description is \<open>[firing] \<close> followed by the pairs sorted by name.
  With the group labels \<open>alert_type: cpu\<close>, \<open>alertname: HighCPU\<close> the name \<open>alert_type\<close> is
  smaller than \<open>alertname\<close>, and the incident created has \<open>alertname\<close> first.
\<close>

theorem create_path_counterexample:
  "Data.Status alertTypeGroup = ''firing''
   \<and> fst (GetIncidents (stubClient [] None None)
      [(IncidentGroupKeyField (ServiceNow exampleConfig), getGroupKey alertTypeGroup)] 0) = ([], None)
   \<and> filter isCreate (calls (manageIncidents exampleConfig (stubClient [] None None) id
        alertTypeGroup 0)) = [CreateIncidentCall (dataToIncidentParam exampleConfig id alertTypeGroup)]
   \<and> ShortDescription (dataToIncidentParam exampleConfig id alertTypeGroup) =
       ''[firing] alertname: HighCPU, alert_type: cpu''
   \<and> ''[firing] '' @ specLabelRendering (GroupLabels alertTypeGroup) =
       ''[firing] alert_type: cpu, alertname: HighCPU''
   \<and> ShortDescription (dataToIncidentParam exampleConfig id alertTypeGroup) \<noteq>
       ''[firing] '' @ specLabelRendering (GroupLabels alertTypeGroup)"
proof -
  have st: "Data.Status alertTypeGroup = ''firing''"
    by (simp add: alertTypeGroup_def highCPU_def)
  have g: "fst (GetIncidents (stubClient [] None None)
      [(IncidentGroupKeyField (ServiceNow exampleConfig), getGroupKey alertTypeGroup)] 0) = ([], None)"
    by (simp add: stubClient_def)
  have c: "filter isCreate (calls (manageIncidents exampleConfig (stubClient [] None None) id
        alertTypeGroup 0)) = [CreateIncidentCall (dataToIncidentParam exampleConfig id alertTypeGroup)]"
    by (simp add: manageIncidents_def calls_def stubClient_def Let_def)
  have sd: "ShortDescription (dataToIncidentParam exampleConfig id alertTypeGroup) =
       ''[firing] alertname: HighCPU, alert_type: cpu''"
    by (simp add: dataToIncidentParam_def Let_def alertTypeGroup_def highCPU_def SortedPairs_def
        AlertNameLabel_def index_def)
  have sp: "''[firing] '' @ specLabelRendering (GroupLabels alertTypeGroup) =
       ''[firing] alert_type: cpu, alertname: HighCPU''"
    by (simp add: specLabelRendering_def sortedByName_def alertTypeGroup_def pairText_def)
  have ne: "ShortDescription (dataToIncidentParam exampleConfig id alertTypeGroup) \<noteq>
       ''[firing] '' @ specLabelRendering (GroupLabels alertTypeGroup)"
    unfolding sd sp by simp
  from st g c sd sp ne show ?thesis by simp
qed

text \<open>
  C7, as amended. The comments of the incident are the header line followed by one block
  for each alert, in the order in which the alerts were received: for the alerts \<open>[A, B]\<close> the
  block of \<open>A\<close> comes before the block of \<open>B\<close>. Inside a block the label lines, and after them
  the annotation lines, have the label \<open>alertname\<close> first and the others sorted by name.
\<close>

theorem comments_in_received_order:
  assumes "\<forall>a \<in> set (Alerts data).
      distinct (map fst (Labels a)) \<and> distinct (map fst (Annotations a))"
  shows "Comments (dataToIncidentParam config showTime data) =
     ''Alerts list:''
     @ concat (map (\<lambda>a. ''\<newline>\<newline>'' @ alertBlock alertnameFirst showTime a) (Alerts data))"
proof -
  have "map (\<lambda>a. ''\<newline>\<newline>'' @ alertBuilder showTime a) (Alerts data) =
      map (\<lambda>a. ''\<newline>\<newline>'' @ alertBlock alertnameFirst showTime a) (Alerts data)"
    using assms by (intro map_cong refl) (simp add: alertBuilder_alertBlock)
  moreover have "Comments (dataToIncidentParam config showTime data) =
      commentBuilder showTime (Alerts data)"
    by (simp add: dataToIncidentParam_def Let_def)
  moreover have "commentBuilder showTime (Alerts data) =
      ''Alerts list:'' @ concat (map (\<lambda>a. ''\<newline>\<newline>'' @ alertBuilder showTime a) (Alerts data))"
    unfolding commentBuilder_def by (rule foldl_blocks)
  ultimately show ?thesis by (simp only:)
qed

theorem comments_in_received_order_witness:
  "Alerts highCPU = [alertA, alertB]
   \<and> distinct (map fst (Labels alertA)) \<and> distinct (map fst (Annotations alertA))
   \<and> distinct (map fst (Labels alertB)) \<and> distinct (map fst (Annotations alertB))
   \<and> Comments (dataToIncidentParam exampleConfig id highCPU) =
     ''Alerts list:''
     @ ''\<newline>\<newline>[firing] 2020-01-02 03:04:05 +0000 UTC''
     @ ''\<newline>- alertname: HighCPU\<newline>- alert_type: cpu\<newline>- job: node''
     @ ''\<newline>- summary: load is high''
     @ ''\<newline>\<newline>[resolved] 2020-01-02 03:00:00 +0000 UTC''
     @ ''\<newline>- alertname: Abc\<newline>- instance: a1''"
proof -
  have al: "Alerts highCPU = [alertA, alertB]" by (simp add: highCPU_def)
  have h: "\<forall>a \<in> set (Alerts highCPU).
      distinct (map fst (Labels a)) \<and> distinct (map fst (Annotations a))"
    by (simp add: al alertA_def alertB_def)
  have a: "alertBlock alertnameFirst id alertA =
      ''[firing] 2020-01-02 03:04:05 +0000 UTC''
      @ ''\<newline>- alertname: HighCPU\<newline>- alert_type: cpu\<newline>- job: node''
      @ ''\<newline>- summary: load is high''"
    by (simp add: alertBlock_def alertA_def alertnameFirst_def AlertNameLabel_def pairLine_def)
  have b: "alertBlock alertnameFirst id alertB =
      ''[resolved] 2020-01-02 03:00:00 +0000 UTC'' @ ''\<newline>- alertname: Abc\<newline>- instance: a1''"
    by (simp add: alertBlock_def alertB_def alertnameFirst_def AlertNameLabel_def pairLine_def)
  show ?thesis
    using h al comments_in_received_order [OF h, of exampleConfig id] by (simp add: a b)
qed

text \<open>
  C7, as stated: inside each block the label lines are sorted by name. The alert \<open>A\<close> has the
  labels \<open>alert_type\<close>, \<open>alertname\<close> and \<open>job\<close>; its block has the line of \<open>alertname\<close> before
  the line of \<open>alert_type\<close>, which is the smaller name.
\<close>

theorem comments_lines_counterexample:
  "Alerts highCPU = [alertA, alertB]
   \<and> ''alert_type'' < ''alertname''
   \<and> Comments (dataToIncidentParam exampleConfig id highCPU) =
     ''Alerts list:''
     @ ''\<newline>\<newline>[firing] 2020-01-02 03:04:05 +0000 UTC''
     @ ''\<newline>- alertname: HighCPU\<newline>- alert_type: cpu\<newline>- job: node''
     @ ''\<newline>- summary: load is high''
     @ ''\<newline>\<newline>[resolved] 2020-01-02 03:00:00 +0000 UTC''
     @ ''\<newline>- alertname: Abc\<newline>- instance: a1''
   \<and> ''Alerts list:'' @ ''\<newline>\<newline>'' @ alertBlock sortedByName id alertA
       @ ''\<newline>\<newline>'' @ alertBlock sortedByName id alertB =
     ''Alerts list:''
     @ ''\<newline>\<newline>[firing] 2020-01-02 03:04:05 +0000 UTC''
     @ ''\<newline>- alert_type: cpu\<newline>- alertname: HighCPU\<newline>- job: node''
     @ ''\<newline>- summary: load is high''
     @ ''\<newline>\<newline>[resolved] 2020-01-02 03:00:00 +0000 UTC''
     @ ''\<newline>- alertname: Abc\<newline>- instance: a1''
   \<and> Comments (dataToIncidentParam exampleConfig id highCPU) \<noteq>
     ''Alerts list:'' @ ''\<newline>\<newline>'' @ alertBlock sortedByName id alertA
       @ ''\<newline>\<newline>'' @ alertBlock sortedByName id alertB"
proof -
  have al: "Alerts highCPU = [alertA, alertB]" by (simp add: highCPU_def)
  have lt: "''alert_type'' < ''alertname''" by simp
  have a: "alertBuilder id alertA =
      ''[firing] 2020-01-02 03:04:05 +0000 UTC''
      @ ''\<newline>- alertname: HighCPU\<newline>- alert_type: cpu\<newline>- job: node''
      @ ''\<newline>- summary: load is high''"
    by (simp add: alertBuilder_def alertA_def SortedPairs_def AlertNameLabel_def index_def
        writePairLine_def Let_def)
  have b: "alertBuilder id alertB =
      ''[resolved] 2020-01-02 03:00:00 +0000 UTC'' @ ''\<newline>- alertname: Abc\<newline>- instance: a1''"
    by (simp add: alertBuilder_def alertB_def SortedPairs_def AlertNameLabel_def index_def
        writePairLine_def Let_def)
  have c: "Comments (dataToIncidentParam exampleConfig id highCPU) =
      ''Alerts list:'' @ ''\<newline>\<newline>'' @ alertBuilder id alertA @ ''\<newline>\<newline>'' @ alertBuilder id alertB"
    by (simp add: dataToIncidentParam_def Let_def commentBuilder_def al)
  have sa: "alertBlock sortedByName id alertA =
      ''[firing] 2020-01-02 03:04:05 +0000 UTC''
      @ ''\<newline>- alert_type: cpu\<newline>- alertname: HighCPU\<newline>- job: node''
      @ ''\<newline>- summary: load is high''"
    by (simp add: alertBlock_def alertA_def sortedByName_def pairLine_def)
  have sb: "alertBlock sortedByName id alertB =
      ''[resolved] 2020-01-02 03:00:00 +0000 UTC'' @ ''\<newline>- alertname: Abc\<newline>- instance: a1''"
    by (simp add: alertBlock_def alertB_def sortedByName_def pairLine_def)
  show ?thesis
    unfolding c a b sa sb using al lt by simp
qed

end
